theory Spec2Isabelle
  imports Main
begin

section \<open>Python values, dictionaries and strings\<close>

text \<open>
  The values that travel through the webhook pipeline in dictionaries (store rows, the
  correlation metadata of an event, the result of the email collaborator) are text, booleans
  or \<open>None\<close>. A character of a \<open>string\<close> stands for one code point of the Python
  \<open>str\<close>. The case mapping of ASCII text is written out; the case mapping of text with a
  character outside ASCII is that of the interpreter's Unicode tables, a parameter.
\<close>

datatype pyval = PyNone | PyBool bool | PyStr string

text \<open>Python truthiness: \<open>None\<close>, \<open>False\<close> and the empty string are falsy.\<close>

fun truthy :: "pyval \<Rightarrow> bool" where
  "truthy PyNone = False"
| "truthy (PyBool b) = b"
| "truthy (PyStr s) = (s \<noteq> [])"

text \<open>\<open>str(v)\<close>, as an f-string interpolates it.\<close>

fun py_str :: "pyval \<Rightarrow> string" where
  "py_str PyNone = ''None''"
| "py_str (PyBool b) = (if b then ''True'' else ''False'')"
| "py_str (PyStr s) = s"

text \<open>A \<open>dict\<close> with string keys; an empty dictionary is falsy.\<close>

type_synonym row = "(string \<times> pyval) list"

text \<open>\<open>d.get(k)\<close>\<close>

definition dict_get :: "row \<Rightarrow> string \<Rightarrow> pyval" where
  "dict_get d k = (case map_of d k of None \<Rightarrow> PyNone | Some v \<Rightarrow> v)"

text \<open>\<open>d.get(k, default)\<close>\<close>

definition dict_get_default :: "(string \<times> 'v) list \<Rightarrow> string \<Rightarrow> 'v \<Rightarrow> 'v" where
  "dict_get_default d k dflt = (case map_of d k of None \<Rightarrow> dflt | Some v \<Rightarrow> v)"

text \<open>\<open>if not row\<close> on what the store returned: \<open>None\<close> or an empty dictionary.\<close>

fun row_truthy :: "row option \<Rightarrow> bool" where
  "row_truthy None = False"
| "row_truthy (Some d) = (d \<noteq> [])"

text \<open>\<open>s.replace(old, new)\<close> for a one-character \<open>old\<close>.\<close>

definition str_replace :: "char \<Rightarrow> string \<Rightarrow> string \<Rightarrow> string" where
  "str_replace old new s = concat (map (\<lambda>c. if c = old then new else [c]) s)"

text \<open>\<open>sep.join(parts)\<close>\<close>

fun str_join :: "string \<Rightarrow> string list \<Rightarrow> string" where
  "str_join sep [] = []"
| "str_join sep [p] = p"
| "str_join sep (p # q # ps) = p @ sep @ str_join sep (q # ps)"

definition is_ascii :: "char \<Rightarrow> bool" where
  "is_ascii c = ((of_char c :: nat) < 128)"

definition is_lower :: "char \<Rightarrow> bool" where
  "is_lower c = (97 \<le> (of_char c :: nat) \<and> (of_char c :: nat) \<le> 122)"

definition is_upper :: "char \<Rightarrow> bool" where
  "is_upper c = (65 \<le> (of_char c :: nat) \<and> (of_char c :: nat) \<le> 90)"

definition to_upper :: "char \<Rightarrow> char" where
  "to_upper c = char_of ((of_char c :: nat) - 32)"

definition to_lower :: "char \<Rightarrow> char" where
  "to_lower c = char_of ((of_char c :: nat) + 32)"

text \<open>
  \<open>s.title()\<close> on ASCII text, where the cased characters are the letters: a letter that
  follows a letter is lowered, any other letter is raised, and every other character is kept
  and ends the word. The flag is CPython's \<open>previous_is_cased\<close>. The function is applied to
  ASCII text only.
\<close>

fun title_from :: "bool \<Rightarrow> string \<Rightarrow> string" where
  "title_from previous_is_cased [] = []"
| "title_from previous_is_cased (c # cs) =
     (if is_lower c then (if previous_is_cased then c else to_upper c) # title_from True cs
      else if is_upper c then (if previous_is_cased then to_lower c else c) # title_from True cs
      else c # title_from False cs)"

text \<open>
  \<open>s.title()\<close>: on ASCII text the function above; on text with a character outside ASCII
  what the interpreter's Unicode case mapping gives (\<open>unicode_title\<close>, a parameter: it may
  change any character, and the length too, as a sharp s becomes \<open>Ss\<close>).
\<close>

definition str_title :: "(string \<Rightarrow> string) \<Rightarrow> string \<Rightarrow> string" where
  "str_title unicode_title s =
     (if list_all is_ascii s then title_from False s else unicode_title s)"

text \<open>\<open>s.lower()\<close> on ASCII text, to compare strings up to letter case.\<close>

definition str_lower_ascii :: "string \<Rightarrow> string" where
  "str_lower_ascii s = map (\<lambda>c. if is_upper c then to_lower c else c) s"

section \<open>The data of the pipeline\<close>

text \<open>
  Modelled from the spec: the enumerations of \<open>models.schemas\<close>, which is not among the
  sources. The spec lists the members of the call-attempt status, of the resolution and of the
  flag priority; the pipeline stores the string of a member, which stands here for the member.
  Of the email enumerations only the members the pipeline names are known.
\<close>

datatype CallStatus = PENDING | IN_PROGRESS | COMPLETED | FAILED | NO_ANSWER

datatype CallResolution = RESCHEDULED | DECLINED | LEFT_VOICEMAIL | CALLBACK_REQUESTED | NO_ANSWER

datatype FlagPriority = LOW | MEDIUM | HIGH | URGENT

datatype EmailType = APPOINTMENT_RESCHEDULED

datatype EmailStatus = SENT

text \<open>A \<open>datetime\<close> object: an instant. The pipeline only passes it on; it is always truthy.\<close>

datatype datetime = Datetime int

text \<open>
  Modelled from the spec: \<open>ElevenLabsWebhookPayload\<close> of \<open>models.schemas\<close>, with the fields
  the pipeline reads. The status is required, every other field is optional.
\<close>

record ElevenLabsWebhookPayload =
  pl_status :: string
  pl_outcome :: "string option"
  pl_new_appointment_time :: "datetime option"
  pl_transcript :: "string option"
  pl_duration_seconds :: "int option"
  pl_metadata :: "row option"

record WebhookResponse =
  wr_success :: bool
  wr_message :: string

text \<open>The dictionary literals the pipeline hands to the store and to the email collaborator.\<close>

record call_update =
  cu_status :: CallStatus
  cu_resolution :: "CallResolution option"
  cu_completed_at :: string
  cu_transcript :: "string option"
  cu_duration_seconds :: "int option"

record flag_data =
  fd_referral_id :: pyval
  fd_title :: string
  fd_description :: string
  fd_priority :: FlagPriority
  fd_status :: string

record email_args =
  ea_to_email :: pyval
  ea_patient_name :: pyval
  ea_new_datetime :: datetime
  ea_specialist_type :: pyval
  ea_old_datetime :: "datetime option"
  ea_location :: "string option"
  ea_reason :: string
  ea_attach_calendar :: bool

record email_log_data =
  el_referral_id :: string
  el_email_type :: EmailType
  el_recipient_email :: pyval
  el_subject :: string
  el_status :: EmailStatus
  el_sendgrid_message_id :: pyval
  el_calendar_invite_attached :: bool
  el_sent_at :: string

section \<open>Exceptions, collaborator calls and traces\<close>

text \<open>
  The exceptions of the pipeline are subclasses of \<open>Exception\<close>: the \<open>HTTPException\<close> the
  boundary handler raises, the \<open>KeyError\<close> of a dictionary subscript, and whatever a
  collaborator raises when it fails (\<open>Error\<close>, with its message). Signals outside
  \<open>Exception\<close> (task cancellation, interpreter exit) are not modelled.
\<close>

datatype exn = HTTPException nat string | KeyError string | Error string

text \<open>One constructor for each \<open>print\<close> statement, with the values its message interpolates.\<close>

datatype log_line =
    LogMissingCallLogId
  | LogUnknownCallLogId pyval
  | LogOutcomeRescheduled pyval
  | LogStatusWillChange
  | LogNewAppointment datetime
  | LogCallOutcome string
  | LogRemainsMissed pyval
  | LogReferralNotFound pyval
  | LogRescheduleFailed pyval
  | LogReferralRescheduled pyval pyval
  | LogCalendarUpdated pyval
  | LogCalendarFailed exn
  | LogEmailSent pyval
  | LogEmailFailed exn
  | LogWorkflowCompleted pyval
  | LogFlagCreated pyval

text \<open>
  Every call the pipeline makes on an object outside itself, with its arguments: the
  signature verifier, the request, the store, the background-task queue, the calendar and
  email collaborators, and the console.
\<close>

datatype call =
    VerifySignature string string
  | RequestJson
  | GetCallLog pyval
  | AddTask row ElevenLabsWebhookPayload
  | UpdateCallLog pyval call_update
  | GetReferral pyval
  | RescheduleReferral pyval datetime string
  | UpdateReferralEvent pyval datetime string bool
  | SendRescheduledEmail email_args
  | CreateEmailLog email_log_data
  | CreateFlag flag_data
  | Print log_line

text \<open>
  The downstream side effects: a record created or modified, a calendar event updated, an
  email sent, background processing scheduled. Reading and logging are not among them.
\<close>

fun is_side_effect :: "call \<Rightarrow> bool" where
  "is_side_effect (VerifySignature b s) = False"
| "is_side_effect RequestJson = False"
| "is_side_effect (GetCallLog i) = False"
| "is_side_effect (GetReferral i) = False"
| "is_side_effect (Print l) = False"
| "is_side_effect c = True"

fun is_referral_write :: "call \<Rightarrow> bool" where
  "is_referral_write (RescheduleReferral i d r) = True"
| "is_referral_write c = False"

fun is_calendar_call :: "call \<Rightarrow> bool" where
  "is_calendar_call (UpdateReferralEvent i d n s) = True"
| "is_calendar_call c = False"

fun is_email_call :: "call \<Rightarrow> bool" where
  "is_email_call (SendRescheduledEmail a) = True"
| "is_email_call c = False"

fun is_flag_call :: "call \<Rightarrow> bool" where
  "is_flag_call (CreateFlag f) = True"
| "is_flag_call c = False"

fun is_get_referral :: "call \<Rightarrow> bool" where
  "is_get_referral (GetReferral i) = True"
| "is_get_referral c = False"

text \<open>
  A run of pipeline code: the calls it made, in order, and how it ended, with an exception
  (\<open>Inl\<close>) or with a result (\<open>Inr\<close>).
\<close>

type_synonym 'a io = "call list \<times> (exn + 'a)"

definition io_return :: "'a \<Rightarrow> 'a io" where
  "io_return a = ([], Inr a)"

definition io_raise :: "exn \<Rightarrow> 'a io" where
  "io_raise e = ([], Inl e)"

text \<open>Make call \<open>c\<close>, which answers \<open>r\<close>.\<close>

definition io_call :: "call \<Rightarrow> exn + 'a \<Rightarrow> 'a io" where
  "io_call c r = ([c], r)"

definition io_print :: "log_line \<Rightarrow> unit io" where
  "io_print l = io_call (Print l) (Inr ())"

text \<open>Sequencing: an exception ends the run.\<close>

definition io_bind :: "'a io \<Rightarrow> ('a \<Rightarrow> 'b io) \<Rightarrow> 'b io" where
  "io_bind m f =
     (case m of
        (t, Inl e) \<Rightarrow> (t, Inl e)
      | (t, Inr a) \<Rightarrow> (case f a of (t', r) \<Rightarrow> (t @ t', r)))"

text \<open>\<open>try: m except Exception as e: h e\<close>\<close>

definition io_try :: "'a io \<Rightarrow> (exn \<Rightarrow> 'a io) \<Rightarrow> 'a io" where
  "io_try m h =
     (case m of
        (t, Inl e) \<Rightarrow> (case h e of (t', r) \<Rightarrow> (t @ t', r))
      | (t, Inr a) \<Rightarrow> (t, Inr a))"

text \<open>\<open>d[k]\<close>, which raises \<open>KeyError\<close> on a missing key.\<close>

definition dict_item :: "row \<Rightarrow> string \<Rightarrow> pyval io" where
  "dict_item d k = (case map_of d k of None \<Rightarrow> io_raise (KeyError k) | Some v \<Rightarrow> io_return v)"

text \<open>
  The collaborators of the pipeline, whose code is not among the sources, as parameters:
  what each method answers to its arguments. The accessors (\<open>get_supabase_client\<close>,
  \<open>get_elevenlabs_service\<close>, \<open>get_email_service\<close>, \<open>get_calendar_service\<close>) hand out the
  collaborator; the calendar collaborator is \<open>None\<close> in a deployment without its module,
  where \<open>from services import get_calendar_service\<close> raises \<open>ImportError\<close>.
  \<open>request_json\<close> is the decoding of the body (\<open>request.json()\<close> and the payload's
  validation): a payload, or the message of the exception raised. \<open>unicode_title\<close> is
  \<open>str.title\<close> of the interpreter on text with a character outside ASCII.
\<close>

record env =
  verify_webhook_signature :: "string \<Rightarrow> string \<Rightarrow> bool"
  request_json :: "string \<Rightarrow> string + ElevenLabsWebhookPayload"
  utcnow_isoformat :: string
  now_isoformat :: string
  fromisoformat :: "string \<Rightarrow> datetime option"
  get_call_log :: "pyval \<Rightarrow> exn + row option"
  update_call_log :: "pyval \<Rightarrow> call_update \<Rightarrow> exn + unit"
  get_referral :: "pyval \<Rightarrow> exn + row option"
  reschedule_referral :: "pyval \<Rightarrow> datetime \<Rightarrow> string \<Rightarrow> exn + row option"
  create_email_log :: "email_log_data \<Rightarrow> exn + unit"
  create_flag :: "flag_data \<Rightarrow> exn + unit"
  calendar_service :: "(pyval \<Rightarrow> datetime \<Rightarrow> string \<Rightarrow> bool \<Rightarrow> exn + unit) option"
  send_appointment_rescheduled_email :: "email_args \<Rightarrow> exn + row"
  unicode_title :: "string \<Rightarrow> string"

section \<open>The Outcome Mapper tables\<close>

definition status_map :: "(string \<times> CallStatus) list" where
  "status_map =
     [(''completed'', CallStatus.COMPLETED),
      (''failed'', CallStatus.FAILED),
      (''no_answer'', CallStatus.NO_ANSWER)]"

definition resolution_map :: "(string \<times> CallResolution) list" where
  "resolution_map =
     [(''rescheduled'', CallResolution.RESCHEDULED),
      (''declined'', CallResolution.DECLINED),
      (''voicemail'', CallResolution.LEFT_VOICEMAIL),
      (''callback_requested'', CallResolution.CALLBACK_REQUESTED),
      (''no_answer'', CallResolution.NO_ANSWER)]"

definition priority_map :: "(string \<times> FlagPriority) list" where
  "priority_map =
     [(''declined'', FlagPriority.HIGH),
      (''no_answer'', FlagPriority.MEDIUM),
      (''voicemail'', FlagPriority.MEDIUM),
      (''callback_requested'', FlagPriority.HIGH),
      (''invalid_number'', FlagPriority.URGENT),
      (''failed'', FlagPriority.HIGH)]"

section \<open>The Follow-up Flagger\<close>

text \<open>
  \<open>create_follow_up_flag\<close>: the flag is built from the outcome string and the optional
  transcript, handed to the store, and the creation is logged. The transcript excerpt is
  \<open>transcript[:500]\<close>, added only for a truthy transcript.
\<close>

definition description_parts :: "string \<Rightarrow> string option \<Rightarrow> string list" where
  "description_parts call_outcome transcript =
     [''Automated call outcome: '' @ call_outcome,
      ''Patient needs manual follow-up to reschedule missed referral.'']
     @ (case transcript of
          None \<Rightarrow> []
        | Some t \<Rightarrow>
            if t \<noteq> [] then [[CHR 0x0A] @ ''Call transcript:'' @ [CHR 0x0A] @ take 500 t @ ''...'']
            else [])"

definition make_flag_data :: "env \<Rightarrow> pyval \<Rightarrow> string \<Rightarrow> string option \<Rightarrow> flag_data" where
  "make_flag_data env referral_id call_outcome transcript =
     \<lparr>fd_referral_id = referral_id,
      fd_title = ''Follow-up needed: ''
        @ str_title (unicode_title env) (str_replace (CHR ''_'') '' '' call_outcome),
      fd_description = str_join [CHR 0x0A] (description_parts call_outcome transcript),
      fd_priority = dict_get_default priority_map call_outcome FlagPriority.MEDIUM,
      fd_status = ''open''\<rparr>"

definition create_follow_up_flag :: "env \<Rightarrow> pyval \<Rightarrow> string \<Rightarrow> string option \<Rightarrow> unit io" where
  "create_follow_up_flag env referral_id call_outcome transcript =
     (let flag = make_flag_data env referral_id call_outcome transcript in
      io_bind (io_call (CreateFlag flag) (create_flag env flag)) (\<lambda>_.
      io_print (LogFlagCreated referral_id)))"

section \<open>The Reschedule Orchestrator\<close>

text \<open>
  \<open>handle_successful_reschedule\<close>, statement by statement: fetch the referral (return when
  there is none), parse its old date (any failure leaves \<open>None\<close>), reschedule it in the store
  (return when the store hands back nothing), then the calendar block and the email block,
  each inside its own \<open>try\<close> with \<open>except Exception\<close>.
\<close>

definition old_datetime_of :: "env \<Rightarrow> row \<Rightarrow> datetime option" where
  "old_datetime_of env existing =
     (if truthy (dict_get existing ''scheduled_date'') then
        (case dict_get existing ''scheduled_date'' of
           PyStr s \<Rightarrow> fromisoformat env (str_replace (CHR ''Z'') ''+00:00'' s)
         | _ \<Rightarrow> None)
      else None)"

definition handle_successful_reschedule :: "env \<Rightarrow> pyval \<Rightarrow> datetime \<Rightarrow> unit io" where
  "handle_successful_reschedule env referral_id new_datetime =
     io_bind (io_call (GetReferral referral_id) (get_referral env referral_id)) (\<lambda>existing_opt.
     case existing_opt of
       None \<Rightarrow> io_print (LogReferralNotFound referral_id)
     | Some existing \<Rightarrow>
     if existing = [] then io_print (LogReferralNotFound referral_id)
     else
     let old_datetime = old_datetime_of env existing in
     io_bind (io_call (RescheduleReferral referral_id new_datetime ''Rescheduled via automated call'')
                (reschedule_referral env referral_id new_datetime ''Rescheduled via automated call''))
       (\<lambda>referral_opt.
     case referral_opt of
       None \<Rightarrow> io_print (LogRescheduleFailed referral_id)
     | Some referral \<Rightarrow>
     if referral = [] then io_print (LogRescheduleFailed referral_id)
     else
     io_bind (io_print (LogReferralRescheduled referral_id (dict_get existing ''status''))) (\<lambda>_.
     io_bind (io_print (LogNewAppointment new_datetime)) (\<lambda>_.
     io_bind
       (case calendar_service env of
          None \<Rightarrow> io_return ()
        | Some update_referral_event \<Rightarrow>
            if truthy (dict_get existing ''calendar_event_id'') then
              io_try
                (io_bind (dict_item existing ''calendar_event_id'') (\<lambda>google_event_id.
                 let notes = ''Rescheduled via automated call. ''
                       @ py_str (dict_get_default referral ''notes'' (PyStr [])) in
                 io_bind (io_call (UpdateReferralEvent google_event_id new_datetime notes True)
                            (update_referral_event google_event_id new_datetime notes True)) (\<lambda>_.
                 io_print (LogCalendarUpdated google_event_id))))
                (\<lambda>e. io_print (LogCalendarFailed e))
            else io_return ()) (\<lambda>_.
     io_bind
       (if truthy (dict_get referral ''patient_email'') then
          io_try
            (io_bind (dict_item referral ''patient_email'') (\<lambda>to_email.
             io_bind (dict_item referral ''patient_name'') (\<lambda>patient_name.
             io_bind (dict_item referral ''specialist_type'') (\<lambda>specialist_type.
             let args = \<lparr>ea_to_email = to_email, ea_patient_name = patient_name,
                         ea_new_datetime = new_datetime, ea_specialist_type = specialist_type,
                         ea_old_datetime = old_datetime, ea_location = None,
                         ea_reason = ''Rescheduled via automated call'',
                         ea_attach_calendar = True\<rparr> in
             io_bind (io_call (SendRescheduledEmail args)
                        (send_appointment_rescheduled_email env args)) (\<lambda>email_result.
             if truthy (dict_get email_result ''success'') then
               let email_log = \<lparr>el_referral_id = py_str referral_id,
                                 el_email_type = APPOINTMENT_RESCHEDULED,
                                 el_recipient_email = to_email,
                                 el_subject = ''Appointment Rescheduled - '' @ py_str specialist_type,
                                 el_status = SENT,
                                 el_sendgrid_message_id = dict_get email_result ''message_id'',
                                 el_calendar_invite_attached = True,
                                 el_sent_at = now_isoformat env\<rparr> in
               io_bind (io_call (CreateEmailLog email_log) (create_email_log env email_log)) (\<lambda>_.
               io_print (LogEmailSent to_email))
             else io_return ())))))
            (\<lambda>e. io_print (LogEmailFailed e))
        else io_return ()) (\<lambda>_.
     io_print (LogWorkflowCompleted referral_id)))))))"

text \<open>
  The two best-effort blocks of \<open>handle_successful_reschedule\<close> on their own, for the proofs:
  the calendar block (the \<open>if calendar_available and ...\<close> statement) and the email block
  (the \<open>if referral.get("patient_email")\<close> statement).
\<close>

definition calendar_block :: "env \<Rightarrow> row \<Rightarrow> row \<Rightarrow> datetime \<Rightarrow> unit io" where
  "calendar_block env existing referral new_datetime =
     (case calendar_service env of
        None \<Rightarrow> io_return ()
      | Some update_referral_event \<Rightarrow>
          if truthy (dict_get existing ''calendar_event_id'') then
            io_try
              (io_bind (dict_item existing ''calendar_event_id'') (\<lambda>google_event_id.
               let notes = ''Rescheduled via automated call. ''
                     @ py_str (dict_get_default referral ''notes'' (PyStr [])) in
               io_bind (io_call (UpdateReferralEvent google_event_id new_datetime notes True)
                          (update_referral_event google_event_id new_datetime notes True)) (\<lambda>_.
               io_print (LogCalendarUpdated google_event_id))))
              (\<lambda>e. io_print (LogCalendarFailed e))
          else io_return ())"

definition email_block :: "env \<Rightarrow> pyval \<Rightarrow> row \<Rightarrow> datetime \<Rightarrow> datetime option \<Rightarrow> unit io" where
  "email_block env referral_id referral new_datetime old_datetime =
     (if truthy (dict_get referral ''patient_email'') then
        io_try
          (io_bind (dict_item referral ''patient_email'') (\<lambda>to_email.
           io_bind (dict_item referral ''patient_name'') (\<lambda>patient_name.
           io_bind (dict_item referral ''specialist_type'') (\<lambda>specialist_type.
           let args = \<lparr>ea_to_email = to_email, ea_patient_name = patient_name,
                       ea_new_datetime = new_datetime, ea_specialist_type = specialist_type,
                       ea_old_datetime = old_datetime, ea_location = None,
                       ea_reason = ''Rescheduled via automated call'',
                       ea_attach_calendar = True\<rparr> in
           io_bind (io_call (SendRescheduledEmail args)
                      (send_appointment_rescheduled_email env args)) (\<lambda>email_result.
           if truthy (dict_get email_result ''success'') then
             let email_log = \<lparr>el_referral_id = py_str referral_id,
                               el_email_type = APPOINTMENT_RESCHEDULED,
                               el_recipient_email = to_email,
                               el_subject = ''Appointment Rescheduled - '' @ py_str specialist_type,
                               el_status = SENT,
                               el_sendgrid_message_id = dict_get email_result ''message_id'',
                               el_calendar_invite_attached = True,
                               el_sent_at = now_isoformat env\<rparr> in
             io_bind (io_call (CreateEmailLog email_log) (create_email_log env email_log)) (\<lambda>_.
             io_print (LogEmailSent to_email))
           else io_return ())))))
          (\<lambda>e. io_print (LogEmailFailed e))
      else io_return ())"

section \<open>The Outcome Processor\<close>

text \<open>The dictionary \<open>call_update\<close> that \<open>process_call_outcome\<close> builds from the event.\<close>

definition make_call_update :: "env \<Rightarrow> ElevenLabsWebhookPayload \<Rightarrow> call_update" where
  "make_call_update env payload =
     \<lparr>cu_status = dict_get_default status_map (pl_status payload) CallStatus.COMPLETED,
      cu_resolution =
        (case pl_outcome payload of
           None \<Rightarrow> None
         | Some outcome \<Rightarrow> if outcome \<noteq> [] then map_of resolution_map outcome else None),
      cu_completed_at = utcnow_isoformat env,
      cu_transcript = pl_transcript payload,
      cu_duration_seconds = pl_duration_seconds payload\<rparr>"

text \<open>\<open>payload.outcome or payload.status\<close>\<close>

definition outcome_or_status :: "ElevenLabsWebhookPayload \<Rightarrow> string" where
  "outcome_or_status payload =
     (case pl_outcome payload of
        None \<Rightarrow> pl_status payload
      | Some outcome \<Rightarrow> if outcome \<noteq> [] then outcome else pl_status payload)"

definition process_call_outcome :: "env \<Rightarrow> row \<Rightarrow> ElevenLabsWebhookPayload \<Rightarrow> unit io" where
  "process_call_outcome env call_log payload =
     (let call_update = make_call_update env payload in
      io_bind (dict_item call_log ''id'') (\<lambda>call_log_id.
      io_bind (io_call (UpdateCallLog call_log_id call_update)
                 (update_call_log env call_log_id call_update)) (\<lambda>_.
      io_bind (dict_item call_log ''referral_id'') (\<lambda>referral_id.
      case (pl_outcome payload = Some ''rescheduled'', pl_new_appointment_time payload) of
        (True, Some new_appointment_time) \<Rightarrow>
          io_bind (io_print (LogOutcomeRescheduled referral_id)) (\<lambda>_.
          io_bind (io_print LogStatusWillChange) (\<lambda>_.
          io_bind (io_print (LogNewAppointment new_appointment_time)) (\<lambda>_.
          handle_successful_reschedule env referral_id new_appointment_time)))
      | _ \<Rightarrow>
          io_bind (io_print (LogCallOutcome (outcome_or_status payload))) (\<lambda>_.
          io_bind (io_print (LogRemainsMissed referral_id)) (\<lambda>_.
          create_follow_up_flag env referral_id (outcome_or_status payload)
            (pl_transcript payload)))))))"

section \<open>The Acknowledgment Path\<close>

text \<open>\<open>payload.metadata.get("call_log_id") if payload.metadata else None\<close>\<close>

definition call_log_id_of :: "ElevenLabsWebhookPayload \<Rightarrow> pyval" where
  "call_log_id_of payload =
     (case pl_metadata payload of
        None \<Rightarrow> PyNone
      | Some metadata \<Rightarrow> if metadata \<noteq> [] then dict_get metadata ''call_log_id'' else PyNone)"

text \<open>
  \<open>handle_elevenlabs_webhook\<close>: the signature header is \<open>None\<close> when absent and the verifier
  receives \<open>x_webhook_signature or ""\<close>. A failed verification raises the 401, a failed
  decoding the 400; a missing or unknown call-log id is acknowledged; otherwise the processing
  is queued as a background task and the receipt acknowledged.
\<close>

definition handle_elevenlabs_webhook :: "env \<Rightarrow> string \<Rightarrow> string option \<Rightarrow> WebhookResponse io" where
  "handle_elevenlabs_webhook env body x_webhook_signature =
     (let signature = (case x_webhook_signature of None \<Rightarrow> [] | Some s \<Rightarrow> s) in
      io_bind (io_call (VerifySignature body signature)
                 (Inr (verify_webhook_signature env body signature))) (\<lambda>valid.
      if \<not> valid then io_raise (HTTPException 401 ''Invalid webhook signature'')
      else
      io_bind (io_call RequestJson
                 (case request_json env body of
                    Inl msg \<Rightarrow> Inl (HTTPException 400 (''Invalid payload: '' @ msg))
                  | Inr payload \<Rightarrow> Inr payload)) (\<lambda>payload.
      let call_log_id = call_log_id_of payload in
      if \<not> truthy call_log_id then
        io_bind (io_print LogMissingCallLogId) (\<lambda>_.
        io_return \<lparr>wr_success = True, wr_message = ''Call log ID not found, ignoring''\<rparr>)
      else
      io_bind (io_call (GetCallLog call_log_id) (get_call_log env call_log_id)) (\<lambda>call_log.
      case call_log of
        None \<Rightarrow>
          io_bind (io_print (LogUnknownCallLogId call_log_id)) (\<lambda>_.
          io_return \<lparr>wr_success = True, wr_message = ''Call log not found, ignoring''\<rparr>)
      | Some cl \<Rightarrow>
          if cl = [] then
            io_bind (io_print (LogUnknownCallLogId call_log_id)) (\<lambda>_.
            io_return \<lparr>wr_success = True, wr_message = ''Call log not found, ignoring''\<rparr>)
          else
            io_bind (io_call (AddTask cl payload) (Inr ())) (\<lambda>_.
            io_return \<lparr>wr_success = True, wr_message = ''Webhook received, processing''\<rparr>)))))"

text \<open>
  One delivery: the handler answers, and the tasks it queued run afterwards, in order. What a
  task raises does not reach the answer already given. A request the handler rejects has
  queued nothing.
\<close>

fun queued_tasks :: "call list \<Rightarrow> (row \<times> ElevenLabsWebhookPayload) list" where
  "queued_tasks [] = []"
| "queued_tasks (AddTask cl p # cs) = (cl, p) # queued_tasks cs"
| "queued_tasks (c # cs) = queued_tasks cs"

definition webhook_delivery :: "env \<Rightarrow> string \<Rightarrow> string option \<Rightarrow> WebhookResponse io" where
  "webhook_delivery env body x_webhook_signature =
     (case handle_elevenlabs_webhook env body x_webhook_signature of
        (t, Inl e) \<Rightarrow> (t, Inl e)
      | (t, Inr response) \<Rightarrow>
          (t @ concat (map (\<lambda>(cl, p). fst (process_call_outcome env cl p)) (queued_tasks t)),
           Inr response))"

section \<open>Concrete events, rows and collaborators\<close>

text \<open>
  A call attempt already in terminal status, its referral, three events that correlate to
  it, and collaborators that all succeed; then the same collaborators with a calendar that is
  down, with a store that hands back nothing when asked to reschedule, and with a store that
  raises when asked to reschedule.
\<close>

definition call_log_terminal :: row where
  "call_log_terminal =
     [(''id'', PyStr ''log-1''), (''referral_id'', PyStr ''ref-1''),
      (''status'', PyStr ''completed'')]"

definition referral_row :: row where
  "referral_row =
     [(''id'', PyStr ''ref-1''), (''status'', PyStr ''missed''),
      (''scheduled_date'', PyStr ''2026-01-10T09:00:00Z''),
      (''calendar_event_id'', PyStr ''evt-1''),
      (''patient_email'', PyStr ''pat@example.org''),
      (''patient_name'', PyStr ''Pat''),
      (''specialist_type'', PyStr ''Cardiology''),
      (''notes'', PyNone)]"

definition payload_declined :: ElevenLabsWebhookPayload where
  "payload_declined =
     \<lparr>pl_status = ''failed'', pl_outcome = Some ''declined'',
      pl_new_appointment_time = None, pl_transcript = Some ''No thanks.'',
      pl_duration_seconds = Some 42,
      pl_metadata = Some [(''referral_id'', PyStr ''ref-1''), (''call_log_id'', PyStr ''log-1'')]\<rparr>"

definition payload_rescheduled :: ElevenLabsWebhookPayload where
  "payload_rescheduled =
     payload_declined\<lparr>pl_status := ''completed'', pl_outcome := Some ''rescheduled'',
       pl_new_appointment_time := Some (Datetime 1769954400)\<rparr>"

definition payload_unknown_attempt :: ElevenLabsWebhookPayload where
  "payload_unknown_attempt =
     payload_declined\<lparr>pl_metadata := Some [(''call_log_id'', PyStr ''log-404'')]\<rparr>"

definition env_ok :: env where
  "env_ok =
     \<lparr>verify_webhook_signature = (\<lambda>body signature. signature = ''mac-of-'' @ body),
      request_json = (\<lambda>body.
        if body = ''declined'' then Inr payload_declined
        else if body = ''rescheduled'' then Inr payload_rescheduled
        else if body = ''unknown attempt'' then Inr payload_unknown_attempt
        else if body = ''no metadata'' then Inr (payload_declined\<lparr>pl_metadata := None\<rparr>)
        else Inl ''Expecting JSON''),
      utcnow_isoformat = ''2026-01-20T10:00:00'',
      now_isoformat = ''2026-01-20T05:00:00'',
      fromisoformat = (\<lambda>s.
        if s = ''2026-01-10T09:00:00+00:00'' then Some (Datetime 1768035600) else None),
      get_call_log = (\<lambda>i. if i = PyStr ''log-1'' then Inr (Some call_log_terminal) else Inr None),
      update_call_log = (\<lambda>i u. Inr ()),
      get_referral = (\<lambda>i. if i = PyStr ''ref-1'' then Inr (Some referral_row) else Inr None),
      reschedule_referral = (\<lambda>i d reason.
        if i = PyStr ''ref-1'' then Inr (Some ((''status'', PyStr ''scheduled'') # referral_row))
        else Inr None),
      create_email_log = (\<lambda>l. Inr ()),
      create_flag = (\<lambda>f. Inr ()),
      calendar_service = Some (\<lambda>i d n s. Inr ()),
      send_appointment_rescheduled_email = (\<lambda>a.
        Inr [(''success'', PyBool True), (''message_id'', PyStr ''msg-1'')]),
      unicode_title = (\<lambda>s. s)\<rparr>"

definition env_calendar_down :: env where
  "env_calendar_down =
     env_ok\<lparr>calendar_service := Some (\<lambda>i d n s. Inl (Error ''calendar unavailable''))\<rparr>"

definition env_store_refuses :: env where
  "env_store_refuses = env_ok\<lparr>reschedule_referral := (\<lambda>i d reason. Inr None)\<rparr>"

definition env_store_raises :: env where
  "env_store_raises =
     env_ok\<lparr>reschedule_referral := (\<lambda>i d reason. Inl (Error ''store unavailable''))\<rparr>"

section \<open>Running pipeline code: basic facts\<close>

lemma io_bind_pair:
  "io_bind (t, r) f = (case r of Inl e \<Rightarrow> (t, Inl e) | Inr a \<Rightarrow> (t @ fst (f a), snd (f a)))"
  by (simp add: io_bind_def split: prod.split sum.split)

lemma io_try_pair:
  "io_try (t, r) h = (case r of Inl e \<Rightarrow> (t @ fst (h e), snd (h e)) | Inr a \<Rightarrow> (t, Inr a))"
  by (simp add: io_try_def split: prod.split sum.split)

lemma io_bind_unit:
  "snd m = Inr a \<Longrightarrow> io_bind m f = (fst m @ fst (f a), snd (f a))"
  by (cases m) (simp add: io_bind_pair)

lemmas io_simps = io_bind_pair io_try_pair io_call_def io_print_def io_return_def io_raise_def
  dict_item_def

lemma handle_successful_reschedule_blocks:
  "handle_successful_reschedule env referral_id new_datetime =
     io_bind (io_call (GetReferral referral_id) (get_referral env referral_id)) (\<lambda>existing_opt.
     case existing_opt of
       None \<Rightarrow> io_print (LogReferralNotFound referral_id)
     | Some existing \<Rightarrow>
     if existing = [] then io_print (LogReferralNotFound referral_id)
     else
     io_bind (io_call (RescheduleReferral referral_id new_datetime ''Rescheduled via automated call'')
                (reschedule_referral env referral_id new_datetime ''Rescheduled via automated call''))
       (\<lambda>referral_opt.
     case referral_opt of
       None \<Rightarrow> io_print (LogRescheduleFailed referral_id)
     | Some referral \<Rightarrow>
     if referral = [] then io_print (LogRescheduleFailed referral_id)
     else
     io_bind (io_print (LogReferralRescheduled referral_id (dict_get existing ''status''))) (\<lambda>_.
     io_bind (io_print (LogNewAppointment new_datetime)) (\<lambda>_.
     io_bind (calendar_block env existing referral new_datetime) (\<lambda>_.
     io_bind (email_block env referral_id referral new_datetime (old_datetime_of env existing)) (\<lambda>_.
     io_print (LogWorkflowCompleted referral_id)))))))"
  by (simp only: handle_successful_reschedule_def calendar_block_def email_block_def Let_def)

lemma calendar_block_result: "snd (calendar_block env existing referral dt) = Inr ()"
  by (simp add: calendar_block_def io_simps Let_def split: sum.splits option.splits)

lemma email_block_result: "snd (email_block env r referral dt old) = Inr ()"
  by (simp add: email_block_def io_simps Let_def split: sum.splits option.splits)

lemma calendar_block_calls:
  "filter is_flag_call (fst (calendar_block env existing referral dt)) = []"
  "filter is_get_referral (fst (calendar_block env existing referral dt)) = []"
  "filter is_referral_write (fst (calendar_block env existing referral dt)) = []"
  "filter is_email_call (fst (calendar_block env existing referral dt)) = []"
  by (simp_all add: calendar_block_def io_simps Let_def split: sum.splits option.splits)

lemma calendar_block_attempt:
  "filter is_calendar_call (fst (calendar_block env existing referral dt)) \<noteq> []
     \<longleftrightarrow> calendar_service env \<noteq> None \<and> truthy (dict_get existing ''calendar_event_id'')"
  by (auto simp add: calendar_block_def io_simps Let_def dict_get_def split: sum.splits option.splits)

lemma email_block_calls:
  "filter is_flag_call (fst (email_block env r referral dt old)) = []"
  "filter is_get_referral (fst (email_block env r referral dt old)) = []"
  "filter is_referral_write (fst (email_block env r referral dt old)) = []"
  "filter is_calendar_call (fst (email_block env r referral dt old)) = []"
  by (simp_all add: email_block_def io_simps Let_def split: sum.splits option.splits)

lemma email_block_attempt:
  "filter is_email_call (fst (email_block env r referral dt old)) \<noteq> []
     \<longleftrightarrow> truthy (dict_get referral ''patient_email'')
         \<and> map_of referral ''patient_name'' \<noteq> None
         \<and> map_of referral ''specialist_type'' \<noteq> None"
  by (auto simp add: email_block_def io_simps Let_def dict_get_def split: sum.splits option.splits)

lemma email_block_calendar:
  "email_block (env\<lparr>calendar_service := cal\<rparr>) r referral dt old = email_block env r referral dt old"
  by (simp add: email_block_def Let_def cong: if_cong)

lemma old_datetime_of_calendar:
  "old_datetime_of (env\<lparr>calendar_service := cal\<rparr>) existing = old_datetime_of env existing"
  by (simp add: old_datetime_of_def split: pyval.splits)

lemma reschedule_run:
  assumes "get_referral env r = Inr (Some existing)" and "existing \<noteq> []"
    and "reschedule_referral env r dt ''Rescheduled via automated call'' = Inr (Some referral)"
    and "referral \<noteq> []"
  shows "handle_successful_reschedule env r dt =
     ([GetReferral r, RescheduleReferral r dt ''Rescheduled via automated call'',
       Print (LogReferralRescheduled r (dict_get existing ''status'')),
       Print (LogNewAppointment dt)]
        @ fst (calendar_block env existing referral dt)
        @ fst (email_block env r referral dt (old_datetime_of env existing))
        @ [Print (LogWorkflowCompleted r)],
      Inr ())"
  using assms
  by (simp add: handle_successful_reschedule_blocks
        io_bind_unit [OF calendar_block_result] io_bind_unit [OF email_block_result]
        io_bind_pair io_call_def io_print_def)

lemma reschedule_no_flag:
  "filter is_flag_call (fst (handle_successful_reschedule env r dt)) = []"
  by (simp add: handle_successful_reschedule_blocks
        io_bind_unit [OF calendar_block_result] io_bind_unit [OF email_block_result]
        io_bind_pair io_call_def io_print_def calendar_block_calls email_block_calls
        split: sum.splits option.splits)

lemma reschedule_reads_referral:
  "filter is_get_referral (fst (handle_successful_reschedule env r dt)) = [GetReferral r]"
  by (simp add: handle_successful_reschedule_blocks
        io_bind_unit [OF calendar_block_result] io_bind_unit [OF email_block_result]
        io_bind_pair io_call_def io_print_def calendar_block_calls email_block_calls
        split: sum.splits option.splits)

lemma flagger_one_flag:
  "filter is_flag_call (fst (create_follow_up_flag env r oc tr)) = [CreateFlag (make_flag_data env r oc tr)]"
  by (simp add: create_follow_up_flag_def Let_def io_simps split: sum.splits)

lemma flagger_no_referral:
  "filter is_get_referral (fst (create_follow_up_flag env r oc tr)) = []"
  by (simp add: create_follow_up_flag_def Let_def io_simps split: sum.splits)

lemma flagger_no_referral_write:
  "filter is_referral_write (fst (create_follow_up_flag env r oc tr)) = []"
  by (simp add: create_follow_up_flag_def Let_def io_simps split: sum.splits)

lemma resolution_rescheduled:
  "cu_resolution (make_call_update env p) = Some CallResolution.RESCHEDULED
   \<longleftrightarrow> pl_outcome p = Some ''rescheduled''"
  by (cases "pl_outcome p") (auto simp add: make_call_update_def resolution_map_def split: if_splits)

lemma process_reschedule_branch:
  assumes "map_of cl ''id'' = Some i" and "map_of cl ''referral_id'' = Some r"
    and "update_call_log env i (make_call_update env p) = Inr ()"
    and "pl_outcome p = Some ''rescheduled''" and "pl_new_appointment_time p = Some dt"
  shows "process_call_outcome env cl p =
     ([UpdateCallLog i (make_call_update env p), Print (LogOutcomeRescheduled r),
       Print LogStatusWillChange, Print (LogNewAppointment dt)]
        @ fst (handle_successful_reschedule env r dt),
      snd (handle_successful_reschedule env r dt))"
  using assms by (simp add: process_call_outcome_def Let_def io_simps)

lemma process_flag_branch:
  assumes "map_of cl ''id'' = Some i" and "map_of cl ''referral_id'' = Some r"
    and "update_call_log env i (make_call_update env p) = Inr ()"
    and "\<not> (pl_outcome p = Some ''rescheduled'' \<and> pl_new_appointment_time p \<noteq> None)"
  shows "process_call_outcome env cl p =
     ([UpdateCallLog i (make_call_update env p), Print (LogCallOutcome (outcome_or_status p)),
       Print (LogRemainsMissed r)]
        @ fst (create_follow_up_flag env r (outcome_or_status p) (pl_transcript p)),
      snd (create_follow_up_flag env r (outcome_or_status p) (pl_transcript p)))"
  using assms by (auto simp add: process_call_outcome_def Let_def io_simps split: bool.splits option.splits)

lemma priority_lookup:
  "dict_get_default priority_map oc FlagPriority.MEDIUM =
     (if oc = ''declined'' then FlagPriority.HIGH
      else if oc = ''no_answer'' then FlagPriority.MEDIUM
      else if oc = ''voicemail'' then FlagPriority.MEDIUM
      else if oc = ''callback_requested'' then FlagPriority.HIGH
      else if oc = ''invalid_number'' then FlagPriority.URGENT
      else if oc = ''failed'' then FlagPriority.HIGH
      else FlagPriority.MEDIUM)"
  by (simp add: dict_get_default_def priority_map_def)

lemma to_upper_of_lower:
  assumes "is_lower c"
  shows "is_upper (to_upper c)" and "to_lower (to_upper c) = c" and "\<not> is_upper c"
proof -
  define n :: nat where "n = of_char c"
  have n: "97 \<le> n" "n \<le> 122"
    using assms by (simp_all add: is_lower_def n_def)
  have m: "(n - 32) mod 256 = n - 32"
    using n by simp
  have u: "(of_char (to_upper c) :: nat) = n - 32"
    unfolding to_upper_def n_def [symmetric] by (simp add: m)
  show "is_upper (to_upper c)"
    unfolding is_upper_def u using n by arith
  have "to_lower (to_upper c) = char_of (n - 32 + 32)"
    by (simp add: to_lower_def u)
  also have "n - 32 + 32 = n"
    using n by simp
  finally show "to_lower (to_upper c) = c"
    by (simp add: n_def)
  show "\<not> is_upper c"
    using n by (simp add: is_upper_def n_def [symmetric])
qed

lemma to_lower_not_upper:
  assumes "is_upper c"
  shows "\<not> is_upper (to_lower c)"
proof -
  define n :: nat where "n = of_char c"
  have n: "65 \<le> n" "n \<le> 90"
    using assms by (simp_all add: is_upper_def n_def)
  have m: "(n + 32) mod 256 = n + 32"
    using n by simp
  have "(of_char (to_lower c) :: nat) = n + 32"
    unfolding to_lower_def n_def [symmetric] by (simp add: m)
  then show ?thesis
    unfolding is_upper_def using n by arith
qed

lemma lower_title_from: "str_lower_ascii (title_from b s) = str_lower_ascii s"
proof (induction s arbitrary: b)
  case Nil
  show ?case by (simp add: str_lower_ascii_def)
next
  case (Cons c cs)
  have tail: "map (\<lambda>c. if is_upper c then to_lower c else c) (title_from b' cs)
                = map (\<lambda>c. if is_upper c then to_lower c else c) cs" for b'
    using Cons.IH [of b'] by (simp add: str_lower_ascii_def)
  show ?case
  proof (cases "is_lower c")
    case True
    then show ?thesis
      using to_upper_of_lower [OF True] by (simp add: str_lower_ascii_def tail)
  next
    case False
    show ?thesis
    proof (cases "is_upper c")
      case True
      then show ?thesis
        using False to_lower_not_upper [OF True] by (simp add: str_lower_ascii_def tail)
    next
      case no: False
      then show ?thesis
        using False by (simp add: str_lower_ascii_def tail)
    qed
  qed
qed

lemma length_title_from: "length (title_from b s) = length s"
  by (induction s arbitrary: b) simp_all

lemma ascii_underscores_replaced:
  "list_all is_ascii (str_replace (CHR ''_'') '' '' s) = list_all is_ascii s"
  by (induction s) (simp_all add: str_replace_def is_ascii_def)

lemma length_underscores_replaced: "length (str_replace (CHR ''_'') '' '' s) = length s"
  by (induction s) (simp_all add: str_replace_def)

lemma title_examples:
  "str_title u (str_replace (CHR ''_'') '' '' ''no_answer'') = ''No Answer''"
  "str_title u (str_replace (CHR ''_'') '' '' ''rescheduled'') = ''Rescheduled''"
  "str_title u (str_replace (CHR ''_'') '' '' ''declined'') = ''Declined''"
  by code_simp+

lemma env_ok_fields:
  "verify_webhook_signature env_ok body signature = (signature = ''mac-of-'' @ body)"
  "request_json env_ok ''declined'' = Inr payload_declined"
  "request_json env_ok ''rescheduled'' = Inr payload_rescheduled"
  "request_json env_ok ''unknown attempt'' = Inr payload_unknown_attempt"
  "request_json env_ok ''no metadata'' = Inr (payload_declined\<lparr>pl_metadata := None\<rparr>)"
  "utcnow_isoformat env_ok = ''2026-01-20T10:00:00''"
  "now_isoformat env_ok = ''2026-01-20T05:00:00''"
  "get_call_log env_ok (PyStr ''log-1'') = Inr (Some call_log_terminal)"
  "get_call_log env_ok (PyStr ''log-404'') = Inr None"
  "update_call_log env_ok i u = Inr ()"
  "get_referral env_ok (PyStr ''ref-1'') = Inr (Some referral_row)"
  "reschedule_referral env_ok (PyStr ''ref-1'') d reason
     = Inr (Some ((''status'', PyStr ''scheduled'') # referral_row))"
  "create_email_log env_ok l = Inr ()"
  "create_flag env_ok f = Inr ()"
  "send_appointment_rescheduled_email env_ok a
     = Inr [(''success'', PyBool True), (''message_id'', PyStr ''msg-1'')]"
  by (simp_all add: env_ok_def)

lemma call_log_terminal_items:
  "map_of call_log_terminal ''id'' = Some (PyStr ''log-1'')"
  "map_of call_log_terminal ''referral_id'' = Some (PyStr ''ref-1'')"
  "map_of call_log_terminal ''status'' = Some (PyStr ''completed'')"
  "call_log_terminal \<noteq> []"
  by (simp_all add: call_log_terminal_def)

section \<open>Idempotence of the Outcome Processor\<close>

text \<open>
  C1. The claim: an event whose correlation resolves to a call attempt already in terminal
  status is processed as a no-op, with no second set of side effects. The code has no such
  check. Here the store hands out a call attempt whose status is already \<open>completed\<close>; the
  delivery of a validly signed \<open>declined\<close> event for it queues the processing, which
  updates the call attempt again and creates a follow-up flag again.
\<close>

theorem terminal_attempt_processed_again:
  "verify_webhook_signature env_ok ''declined'' ''mac-of-declined''
   \<and> get_call_log env_ok (call_log_id_of payload_declined) = Inr (Some call_log_terminal)
   \<and> dict_get call_log_terminal ''status'' = PyStr ''completed''
   \<and> filter is_side_effect (fst (webhook_delivery env_ok ''declined'' (Some ''mac-of-declined'')))
       = [AddTask call_log_terminal payload_declined,
          UpdateCallLog (PyStr ''log-1'') (make_call_update env_ok payload_declined),
          CreateFlag (make_flag_data env_ok (PyStr ''ref-1'') ''declined'' (Some ''No thanks.''))]"
  by (simp add: webhook_delivery_def handle_elevenlabs_webhook_def process_call_outcome_def
        create_follow_up_flag_def outcome_or_status_def call_log_id_of_def dict_get_def
        io_simps Let_def env_ok_fields call_log_terminal_items payload_declined_def)

section \<open>Unmapped provider statuses\<close>

text \<open>
  C2, as claimed: a provider status outside \<open>completed\<close>, \<open>failed\<close>, \<open>no_answer\<close> is treated
  as a failure that needs human follow-up. It is not: the status \<open>busy\<close> is stored as
  \<open>COMPLETED\<close>, not as a failure status, and a \<open>busy\<close> event whose outcome is \<open>rescheduled\<close>
  with a new time reschedules the referral and creates no follow-up flag.
\<close>

theorem unmapped_status_is_completed:
  "''busy'' \<notin> {''completed'', ''failed'', ''no_answer''}
   \<and> cu_status (make_call_update env_ok (payload_rescheduled\<lparr>pl_status := ''busy''\<rparr>))
       = CallStatus.COMPLETED
   \<and> cu_status (make_call_update env_ok (payload_rescheduled\<lparr>pl_status := ''busy''\<rparr>))
       \<noteq> CallStatus.FAILED
   \<and> filter is_flag_call
       (fst (process_call_outcome env_ok call_log_terminal (payload_rescheduled\<lparr>pl_status := ''busy''\<rparr>)))
       = []"
  by (simp add: make_call_update_def dict_get_default_def status_map_def
        process_call_outcome_def io_simps Let_def env_ok_fields call_log_terminal_items
        payload_rescheduled_def payload_declined_def reschedule_no_flag)

text \<open>
  C2, amended: a provider status outside \<open>completed\<close>, \<open>failed\<close>, \<open>no_answer\<close> is mapped to the
  terminal status \<open>COMPLETED\<close>, not to a failure status. The event is not dropped: the first
  call of the processing is the update of the call attempt with that status, and once the
  update has returned a follow-up flag is created for the event, built from its outcome (or,
  without an outcome, from the status string itself), in every case but one: when the outcome
  is \<open>rescheduled\<close> and a new appointment time is present the Reschedule Orchestrator runs
  and no flag is created.
\<close>

theorem unmapped_status_default:
  assumes "pl_status p \<notin> {''completed'', ''failed'', ''no_answer''}"
    and "map_of cl ''id'' = Some i"
  shows "cu_status (make_call_update env p) = CallStatus.COMPLETED
    \<and> (\<exists>rest result. process_call_outcome env cl p
          = (UpdateCallLog i (make_call_update env p) # rest, result))
    \<and> (map_of cl ''referral_id'' = Some r
          \<and> update_call_log env i (make_call_update env p) = Inr () \<longrightarrow>
        filter is_flag_call (fst (process_call_outcome env cl p)) =
          (if pl_outcome p = Some ''rescheduled'' \<and> pl_new_appointment_time p \<noteq> None then []
           else [CreateFlag (make_flag_data env r (outcome_or_status p) (pl_transcript p))]))"
proof -
  have st: "cu_status (make_call_update env p) = CallStatus.COMPLETED"
    using assms(1) by (simp add: make_call_update_def dict_get_default_def status_map_def)
  have "fst (process_call_outcome env cl p)
          = UpdateCallLog i (make_call_update env p) # tl (fst (process_call_outcome env cl p))"
    using assms(2) by (simp add: process_call_outcome_def io_simps Let_def split: sum.splits)
  then have "process_call_outcome env cl p
          = (UpdateCallLog i (make_call_update env p) # tl (fst (process_call_outcome env cl p)),
             snd (process_call_outcome env cl p))"
    by (metis prod.collapse)
  then have first: "\<exists>rest result. process_call_outcome env cl p
          = (UpdateCallLog i (make_call_update env p) # rest, result)"
    by blast
  have flags: "filter is_flag_call (fst (process_call_outcome env cl p)) =
          (if pl_outcome p = Some ''rescheduled'' \<and> pl_new_appointment_time p \<noteq> None then []
           else [CreateFlag (make_flag_data env r (outcome_or_status p) (pl_transcript p))])"
    if rid: "map_of cl ''referral_id'' = Some r"
      and upd: "update_call_log env i (make_call_update env p) = Inr ()"
  proof (cases "pl_outcome p = Some ''rescheduled'' \<and> pl_new_appointment_time p \<noteq> None")
    case True
    then obtain dt where dt: "pl_new_appointment_time p = Some dt"
      by auto
    from True have oc: "pl_outcome p = Some ''rescheduled''"
      by simp
    show ?thesis
      using True
      by (simp add: process_reschedule_branch [OF assms(2) rid upd oc dt] reschedule_no_flag)
  next
    case False
    show ?thesis
      using False
      by (simp add: process_flag_branch [OF assms(2) rid upd False] flagger_one_flag)
  qed
  show ?thesis
    using st first flags by blast
qed

theorem unmapped_status_default_witness:
  "''busy'' \<notin> {''completed'', ''failed'', ''no_answer''}
   \<and> map_of call_log_terminal ''id'' = Some (PyStr ''log-1'')
   \<and> map_of call_log_terminal ''referral_id'' = Some (PyStr ''ref-1'')
   \<and> update_call_log env_ok (PyStr ''log-1'')
        (make_call_update env_ok (payload_declined\<lparr>pl_status := ''busy''\<rparr>)) = Inr ()
   \<and> cu_status (make_call_update env_ok (payload_declined\<lparr>pl_status := ''busy''\<rparr>))
       = CallStatus.COMPLETED
   \<and> (\<exists>rest result.
         process_call_outcome env_ok call_log_terminal (payload_declined\<lparr>pl_status := ''busy''\<rparr>)
           = (UpdateCallLog (PyStr ''log-1'')
                (make_call_update env_ok (payload_declined\<lparr>pl_status := ''busy''\<rparr>)) # rest,
              result))
   \<and> filter is_flag_call
        (fst (process_call_outcome env_ok call_log_terminal
                (payload_declined\<lparr>pl_status := ''busy''\<rparr>)))
       = [CreateFlag (make_flag_data env_ok (PyStr ''ref-1'') ''declined'' (Some ''No thanks.''))]"
proof -
  let ?p = "payload_declined\<lparr>pl_status := ''busy''\<rparr>"
  have h1: "pl_status ?p \<notin> {''completed'', ''failed'', ''no_answer''}"
    by simp
  have h2: "map_of call_log_terminal ''id'' = Some (PyStr ''log-1'')"
    and h3: "map_of call_log_terminal ''referral_id'' = Some (PyStr ''ref-1'')"
    by (simp_all add: call_log_terminal_items)
  have h4: "update_call_log env_ok (PyStr ''log-1'') (make_call_update env_ok ?p) = Inr ()"
    by (simp add: env_ok_fields)
  have p: "pl_outcome ?p = Some ''declined''" "pl_transcript ?p = Some ''No thanks.''"
    "outcome_or_status ?p = ''declined''"
    by (simp_all add: payload_declined_def outcome_or_status_def)
  show ?thesis
    using unmapped_status_default [OF h1 h2, of env_ok "PyStr ''ref-1''"] h2 h3 h4
    by (simp add: p)
qed

section \<open>The branch decision\<close>

text \<open>
  C3. Once the call attempt is updated, the Outcome Processor runs the Reschedule
  Orchestrator exactly when the resolution it stored is \<open>RESCHEDULED\<close> and the event carries a
  new appointment time, and the Follow-up Flagger in every other case; nothing else runs.
  The orchestrator is recognised by its fetch of the referral, the flagger by its flag.
  The call attempt is a row with an id and a referral reference.
\<close>

theorem branch_decision:
  assumes "map_of cl ''id'' = Some i" and "map_of cl ''referral_id'' = Some r"
    and "update_call_log env i (make_call_update env p) = Inr ()"
  shows "process_call_outcome env cl p =
     (if cu_resolution (make_call_update env p) = Some CallResolution.RESCHEDULED
         \<and> pl_new_appointment_time p \<noteq> None
      then
        ([UpdateCallLog i (make_call_update env p), Print (LogOutcomeRescheduled r),
          Print LogStatusWillChange, Print (LogNewAppointment (the (pl_new_appointment_time p)))]
           @ fst (handle_successful_reschedule env r (the (pl_new_appointment_time p))),
         snd (handle_successful_reschedule env r (the (pl_new_appointment_time p))))
      else
        ([UpdateCallLog i (make_call_update env p), Print (LogCallOutcome (outcome_or_status p)),
          Print (LogRemainsMissed r)]
           @ fst (create_follow_up_flag env r (outcome_or_status p) (pl_transcript p)),
         snd (create_follow_up_flag env r (outcome_or_status p) (pl_transcript p))))
    \<and> (filter is_get_referral (fst (process_call_outcome env cl p)) \<noteq> []
         \<longleftrightarrow> cu_resolution (make_call_update env p) = Some CallResolution.RESCHEDULED
             \<and> pl_new_appointment_time p \<noteq> None)
    \<and> (filter is_flag_call (fst (process_call_outcome env cl p)) \<noteq> []
         \<longleftrightarrow> \<not> (cu_resolution (make_call_update env p) = Some CallResolution.RESCHEDULED
             \<and> pl_new_appointment_time p \<noteq> None))"
proof (cases "pl_outcome p = Some ''rescheduled'' \<and> pl_new_appointment_time p \<noteq> None")
  case True
  then obtain dt where dt: "pl_new_appointment_time p = Some dt" by auto
  from True have oc: "pl_outcome p = Some ''rescheduled''" by simp
  have run: "process_call_outcome env cl p =
     ([UpdateCallLog i (make_call_update env p), Print (LogOutcomeRescheduled r),
       Print LogStatusWillChange, Print (LogNewAppointment dt)]
        @ fst (handle_successful_reschedule env r dt),
      snd (handle_successful_reschedule env r dt))"
    by (rule process_reschedule_branch [OF assms oc dt])
  show ?thesis
    using oc dt by (simp add: run resolution_rescheduled reschedule_no_flag reschedule_reads_referral)
next
  case False
  have run: "process_call_outcome env cl p =
     ([UpdateCallLog i (make_call_update env p), Print (LogCallOutcome (outcome_or_status p)),
       Print (LogRemainsMissed r)]
        @ fst (create_follow_up_flag env r (outcome_or_status p) (pl_transcript p)),
      snd (create_follow_up_flag env r (outcome_or_status p) (pl_transcript p)))"
    by (rule process_flag_branch [OF assms False])
  show ?thesis
    using False by (simp add: run resolution_rescheduled flagger_one_flag flagger_no_referral)
qed

theorem branch_decision_witness:
  "map_of call_log_terminal ''id'' = Some (PyStr ''log-1'')
   \<and> map_of call_log_terminal ''referral_id'' = Some (PyStr ''ref-1'')
   \<and> update_call_log env_ok (PyStr ''log-1'') (make_call_update env_ok payload_rescheduled) = Inr ()
   \<and> update_call_log env_ok (PyStr ''log-1'') (make_call_update env_ok payload_declined) = Inr ()
   \<and> filter is_get_referral (fst (process_call_outcome env_ok call_log_terminal payload_rescheduled)) \<noteq> []
   \<and> filter is_flag_call (fst (process_call_outcome env_ok call_log_terminal payload_rescheduled)) = []
   \<and> filter is_get_referral (fst (process_call_outcome env_ok call_log_terminal payload_declined)) = []
   \<and> filter is_flag_call (fst (process_call_outcome env_ok call_log_terminal payload_declined)) \<noteq> []"
proof -
  have h1: "map_of call_log_terminal ''id'' = Some (PyStr ''log-1'')"
    and h2: "map_of call_log_terminal ''referral_id'' = Some (PyStr ''ref-1'')"
    by (simp_all add: call_log_terminal_items)
  have h3: "update_call_log env_ok (PyStr ''log-1'') (make_call_update env_ok p) = Inr ()" for p
    by (simp add: env_ok_fields)
  have r: "cu_resolution (make_call_update env_ok payload_rescheduled) = Some CallResolution.RESCHEDULED"
    "pl_new_appointment_time payload_rescheduled \<noteq> None"
    by (simp_all add: make_call_update_def resolution_map_def payload_rescheduled_def
          payload_declined_def)
  have d: "cu_resolution (make_call_update env_ok payload_declined) \<noteq> Some CallResolution.RESCHEDULED"
    by (simp add: make_call_update_def resolution_map_def payload_declined_def)
  show ?thesis
    using branch_decision [OF h1 h2 h3, of payload_rescheduled, THEN conjunct2]
      branch_decision [OF h1 h2 h3, of payload_declined, THEN conjunct2] h1 h2 h3 r d
    by simp
qed

section \<open>Rejection and acknowledgment at the boundary\<close>

text \<open>
  C4. A request whose signature the verifier does not accept is rejected with the 401
  before anything else happens: the only call made is the verification itself, so there is
  no decoding, no lookup, no queued task and no side effect. An absent header reaches the
  verifier as the empty signature, so it is handled as the empty header is.
\<close>

theorem bad_signature_rejected:
  assumes "\<not> verify_webhook_signature env body (case hdr of None \<Rightarrow> [] | Some s \<Rightarrow> s)"
  shows "handle_elevenlabs_webhook env body hdr =
           ([VerifySignature body (case hdr of None \<Rightarrow> [] | Some s \<Rightarrow> s)],
            Inl (HTTPException 401 ''Invalid webhook signature''))
    \<and> webhook_delivery env body hdr = handle_elevenlabs_webhook env body hdr
    \<and> filter is_side_effect (fst (webhook_delivery env body hdr)) = []
    \<and> handle_elevenlabs_webhook env body None = handle_elevenlabs_webhook env body (Some [])"
  using assms
  by (simp add: webhook_delivery_def handle_elevenlabs_webhook_def io_simps Let_def)

theorem bad_signature_rejected_witness:
  "\<not> verify_webhook_signature env_ok ''declined'' []
   \<and> \<not> verify_webhook_signature env_ok ''declined'' ''forged''
   \<and> handle_elevenlabs_webhook env_ok ''declined'' None
       = ([VerifySignature ''declined'' []], Inl (HTTPException 401 ''Invalid webhook signature''))
   \<and> snd (handle_elevenlabs_webhook env_ok ''declined'' (Some ''forged''))
       = Inl (HTTPException 401 ''Invalid webhook signature'')
   \<and> filter is_side_effect (fst (webhook_delivery env_ok ''declined'' (Some ''forged''))) = []"
proof -
  have h1: "\<not> verify_webhook_signature env_ok ''declined'' (case None of None \<Rightarrow> [] | Some s \<Rightarrow> s)"
    by (simp add: env_ok_fields)
  have h2: "\<not> verify_webhook_signature env_ok ''declined''
              (case Some ''forged'' of None \<Rightarrow> [] | Some s \<Rightarrow> s)"
    by (simp add: env_ok_fields)
  show ?thesis
    using bad_signature_rejected [OF h1] bad_signature_rejected [OF h2] h1 h2 by simp
qed

text \<open>
  C5. A validly signed, well-formed event whose correlation payload has no call-attempt
  identifier, or whose identifier the store does not know, is answered with success; the
  delivery makes the verification, the decoding and at most the lookup, queues no task and
  has no side effect.
\<close>

theorem unresolved_correlation_acknowledged:
  assumes "verify_webhook_signature env body (case hdr of None \<Rightarrow> [] | Some s \<Rightarrow> s)"
    and "request_json env body = Inr p"
    and "\<not> truthy (call_log_id_of p) \<or> get_call_log env (call_log_id_of p) = Inr None"
  shows "webhook_delivery env body hdr =
           ([VerifySignature body (case hdr of None \<Rightarrow> [] | Some s \<Rightarrow> s), RequestJson]
              @ (if truthy (call_log_id_of p)
                 then [GetCallLog (call_log_id_of p), Print (LogUnknownCallLogId (call_log_id_of p))]
                 else [Print LogMissingCallLogId]),
            Inr \<lparr>wr_success = True,
                 wr_message = (if truthy (call_log_id_of p) then ''Call log not found, ignoring''
                               else ''Call log ID not found, ignoring'')\<rparr>)
    \<and> filter is_side_effect (fst (webhook_delivery env body hdr)) = []
    \<and> queued_tasks (fst (handle_elevenlabs_webhook env body hdr)) = []"
  using assms
  by (auto simp add: webhook_delivery_def handle_elevenlabs_webhook_def io_simps Let_def)

theorem unresolved_correlation_acknowledged_witness:
  "verify_webhook_signature env_ok ''unknown attempt'' ''mac-of-unknown attempt''
   \<and> request_json env_ok ''unknown attempt'' = Inr payload_unknown_attempt
   \<and> get_call_log env_ok (call_log_id_of payload_unknown_attempt) = Inr None
   \<and> snd (webhook_delivery env_ok ''unknown attempt'' (Some ''mac-of-unknown attempt''))
       = Inr \<lparr>wr_success = True, wr_message = ''Call log not found, ignoring''\<rparr>
   \<and> filter is_side_effect
       (fst (webhook_delivery env_ok ''unknown attempt'' (Some ''mac-of-unknown attempt''))) = []
   \<and> \<not> truthy (call_log_id_of (payload_declined\<lparr>pl_metadata := None\<rparr>))
   \<and> snd (webhook_delivery env_ok ''no metadata'' (Some ''mac-of-no metadata''))
       = Inr \<lparr>wr_success = True, wr_message = ''Call log ID not found, ignoring''\<rparr>
   \<and> filter is_side_effect
       (fst (webhook_delivery env_ok ''no metadata'' (Some ''mac-of-no metadata''))) = []"
proof -
  have id1: "call_log_id_of payload_unknown_attempt = PyStr ''log-404''"
    by (simp add: call_log_id_of_def payload_unknown_attempt_def payload_declined_def dict_get_def)
  have id2: "call_log_id_of (payload_declined\<lparr>pl_metadata := None\<rparr>) = PyNone"
    by (simp add: call_log_id_of_def)
  have v1: "verify_webhook_signature env_ok ''unknown attempt''
              (case Some ''mac-of-unknown attempt'' of None \<Rightarrow> [] | Some s \<Rightarrow> s)"
    by (simp add: env_ok_fields)
  have v2: "verify_webhook_signature env_ok ''no metadata''
              (case Some ''mac-of-no metadata'' of None \<Rightarrow> [] | Some s \<Rightarrow> s)"
    by (simp add: env_ok_fields)
  have j1: "request_json env_ok ''unknown attempt'' = Inr payload_unknown_attempt"
    and j2: "request_json env_ok ''no metadata'' = Inr (payload_declined\<lparr>pl_metadata := None\<rparr>)"
    by (simp_all add: env_ok_fields)
  have c1: "\<not> truthy (call_log_id_of payload_unknown_attempt)
             \<or> get_call_log env_ok (call_log_id_of payload_unknown_attempt) = Inr None"
    by (simp add: id1 env_ok_fields)
  have c2: "\<not> truthy (call_log_id_of (payload_declined\<lparr>pl_metadata := None\<rparr>))
             \<or> get_call_log env_ok (call_log_id_of (payload_declined\<lparr>pl_metadata := None\<rparr>)) = Inr None"
    by (simp add: id2)
  show ?thesis
    using unresolved_correlation_acknowledged [OF v1 j1 c1]
      unresolved_correlation_acknowledged [OF v2 j2 c2] v1 j1
    by (simp add: id1 id2 env_ok_fields)
qed

section \<open>Failures inside the Reschedule Orchestrator\<close>

text \<open>
  C6. When the referral was found and rescheduled in the store, the orchestrator ends
  without an exception whatever the calendar and the email collaborators do; the reschedule
  is the only write to the referral in the whole run, so a failed calendar update undoes
  nothing; the email calls are the same whatever the calendar collaborator is or answers,
  and the email is attempted whenever the rescheduled referral has a contact email (and the
  name and specialist fields the message needs); the calendar update is attempted exactly
  when a calendar collaborator is present and the referral has a linked calendar event.
\<close>

theorem calendar_failure_is_contained:
  assumes "get_referral env r = Inr (Some existing)" and "existing \<noteq> []"
    and "reschedule_referral env r dt ''Rescheduled via automated call'' = Inr (Some referral)"
    and "referral \<noteq> []"
  shows "snd (handle_successful_reschedule env r dt) = Inr ()
    \<and> filter is_referral_write (fst (handle_successful_reschedule env r dt))
        = [RescheduleReferral r dt ''Rescheduled via automated call'']
    \<and> filter is_email_call (fst (handle_successful_reschedule (env\<lparr>calendar_service := cal\<rparr>) r dt))
        = filter is_email_call (fst (handle_successful_reschedule env r dt))
    \<and> (filter is_email_call (fst (handle_successful_reschedule env r dt)) \<noteq> []
         \<longleftrightarrow> truthy (dict_get referral ''patient_email'')
             \<and> map_of referral ''patient_name'' \<noteq> None
             \<and> map_of referral ''specialist_type'' \<noteq> None)
    \<and> (filter is_calendar_call (fst (handle_successful_reschedule env r dt)) \<noteq> []
         \<longleftrightarrow> calendar_service env \<noteq> None \<and> truthy (dict_get existing ''calendar_event_id''))"
proof -
  let ?env' = "env\<lparr>calendar_service := cal\<rparr>"
  have g': "get_referral ?env' r = Inr (Some existing)"
    using assms(1) by simp
  have s': "reschedule_referral ?env' r dt ''Rescheduled via automated call'' = Inr (Some referral)"
    using assms(3) by simp
  note run = reschedule_run [OF assms]
  note run' = reschedule_run [OF g' assms(2) s' assms(4)]
  have ok: "snd (handle_successful_reschedule env r dt) = Inr ()"
    by (simp add: run)
  have one: "filter is_referral_write (fst (handle_successful_reschedule env r dt))
        = [RescheduleReferral r dt ''Rescheduled via automated call'']"
    by (simp add: run calendar_block_calls email_block_calls)
  have same: "filter is_email_call (fst (handle_successful_reschedule ?env' r dt))
        = filter is_email_call (fst (handle_successful_reschedule env r dt))"
    by (simp add: run run' calendar_block_calls email_block_calendar old_datetime_of_calendar)
  have email: "filter is_email_call (fst (handle_successful_reschedule env r dt)) \<noteq> []
         \<longleftrightarrow> truthy (dict_get referral ''patient_email'')
             \<and> map_of referral ''patient_name'' \<noteq> None
             \<and> map_of referral ''specialist_type'' \<noteq> None"
    by (simp add: run calendar_block_calls email_block_attempt)
  have cal: "filter is_calendar_call (fst (handle_successful_reschedule env r dt)) \<noteq> []
         \<longleftrightarrow> calendar_service env \<noteq> None \<and> truthy (dict_get existing ''calendar_event_id'')"
    by (simp add: run email_block_calls calendar_block_attempt)
  show ?thesis
    using ok one same email cal by blast
qed

theorem calendar_failure_is_contained_witness:
  "get_referral env_calendar_down (PyStr ''ref-1'') = Inr (Some referral_row)
   \<and> referral_row \<noteq> []
   \<and> reschedule_referral env_calendar_down (PyStr ''ref-1'') (Datetime 1769954400)
        ''Rescheduled via automated call''
       = Inr (Some ((''status'', PyStr ''scheduled'') # referral_row))
   \<and> map_option (\<lambda>update_referral_event. update_referral_event (PyStr ''evt-1'') (Datetime 1769954400) [] True)
        (calendar_service env_calendar_down)
       = Some (Inl (Error ''calendar unavailable''))
   \<and> snd (handle_successful_reschedule env_calendar_down (PyStr ''ref-1'') (Datetime 1769954400))
       = Inr ()
   \<and> filter is_referral_write
        (fst (handle_successful_reschedule env_calendar_down (PyStr ''ref-1'') (Datetime 1769954400)))
       = [RescheduleReferral (PyStr ''ref-1'') (Datetime 1769954400) ''Rescheduled via automated call'']
   \<and> filter is_calendar_call
        (fst (handle_successful_reschedule env_calendar_down (PyStr ''ref-1'') (Datetime 1769954400)))
       \<noteq> []
   \<and> filter is_email_call
        (fst (handle_successful_reschedule env_calendar_down (PyStr ''ref-1'') (Datetime 1769954400)))
       \<noteq> []"
proof -
  have h1: "get_referral env_calendar_down (PyStr ''ref-1'') = Inr (Some referral_row)"
    by (simp add: env_calendar_down_def env_ok_fields)
  have h2: "referral_row \<noteq> []"
    by (simp add: referral_row_def)
  have h3: "reschedule_referral env_calendar_down (PyStr ''ref-1'') (Datetime 1769954400)
              ''Rescheduled via automated call''
            = Inr (Some ((''status'', PyStr ''scheduled'') # referral_row))"
    by (simp add: env_calendar_down_def env_ok_fields)
  have h4: "(''status'', PyStr ''scheduled'') # referral_row \<noteq> []"
    by simp
  have down: "calendar_service env_calendar_down
                = Some (\<lambda>i d n s. Inl (Error ''calendar unavailable''))"
    by (simp add: env_calendar_down_def)
  show ?thesis
    using calendar_failure_is_contained [OF h1 h2 h3 h4] h1 h2 h3
    by (simp add: down referral_row_def dict_get_def)
qed

text \<open>
  The whole run with the calendar down: the failure of the calendar update is logged, and the
  email is sent and logged after it.
\<close>

lemma calendar_down_run:
  "handle_successful_reschedule env_calendar_down (PyStr ''ref-1'') (Datetime 1769954400) =
     ([GetReferral (PyStr ''ref-1''),
       RescheduleReferral (PyStr ''ref-1'') (Datetime 1769954400) ''Rescheduled via automated call'',
       Print (LogReferralRescheduled (PyStr ''ref-1'') (PyStr ''missed'')),
       Print (LogNewAppointment (Datetime 1769954400)),
       UpdateReferralEvent (PyStr ''evt-1'') (Datetime 1769954400)
         ''Rescheduled via automated call. None'' True,
       Print (LogCalendarFailed (Error ''calendar unavailable'')),
       SendRescheduledEmail
         \<lparr>ea_to_email = PyStr ''pat@example.org'', ea_patient_name = PyStr ''Pat'',
          ea_new_datetime = Datetime 1769954400, ea_specialist_type = PyStr ''Cardiology'',
          ea_old_datetime = Some (Datetime 1768035600), ea_location = None,
          ea_reason = ''Rescheduled via automated call'', ea_attach_calendar = True\<rparr>,
       CreateEmailLog
         \<lparr>el_referral_id = ''ref-1'', el_email_type = APPOINTMENT_RESCHEDULED,
          el_recipient_email = PyStr ''pat@example.org'',
          el_subject = ''Appointment Rescheduled - Cardiology'', el_status = SENT,
          el_sendgrid_message_id = PyStr ''msg-1'', el_calendar_invite_attached = True,
          el_sent_at = ''2026-01-20T05:00:00''\<rparr>,
       Print (LogEmailSent (PyStr ''pat@example.org'')),
       Print (LogWorkflowCompleted (PyStr ''ref-1''))],
      Inr ())"
  by (simp add: handle_successful_reschedule_def old_datetime_of_def str_replace_def
        io_simps Let_def dict_get_def dict_get_default_def
        env_calendar_down_def env_ok_def referral_row_def)

text \<open>
  C7, as claimed: when the update of the referral fails, the orchestrator aborts and
  surfaces an error. Here the store hands back nothing when asked to reschedule; the
  orchestrator logs the failure and returns normally, and so does the processing that called
  it.
\<close>

theorem reschedule_failure_returns_normally:
  "reschedule_referral env_store_refuses (PyStr ''ref-1'') (Datetime 1769954400)
     ''Rescheduled via automated call'' = Inr None
   \<and> handle_successful_reschedule env_store_refuses (PyStr ''ref-1'') (Datetime 1769954400)
       = ([GetReferral (PyStr ''ref-1''),
           RescheduleReferral (PyStr ''ref-1'') (Datetime 1769954400) ''Rescheduled via automated call'',
           Print (LogRescheduleFailed (PyStr ''ref-1''))],
          Inr ())
   \<and> snd (process_call_outcome env_store_refuses call_log_terminal payload_rescheduled) = Inr ()"
  by (simp add: handle_successful_reschedule_def process_call_outcome_def io_simps Let_def
        env_store_refuses_def env_ok_fields call_log_terminal_items referral_row_def
        payload_rescheduled_def payload_declined_def)

text \<open>
  C7, amended: when the update of the referral fails, the orchestrator aborts, and neither
  the calendar update nor the email is attempted afterwards. When the store call raises, the
  exception reaches the caller; when the store hands back no referral, the failure is logged
  and the orchestrator returns normally.
\<close>

theorem reschedule_failure_aborts:
  assumes "get_referral env r = Inr (Some existing)" and "existing \<noteq> []"
  shows "(reschedule_referral env r dt ''Rescheduled via automated call'' = Inl e \<longrightarrow>
            handle_successful_reschedule env r dt =
              ([GetReferral r, RescheduleReferral r dt ''Rescheduled via automated call''], Inl e))
    \<and> (reschedule_referral env r dt ''Rescheduled via automated call'' = Inr referral
          \<and> \<not> row_truthy referral \<longrightarrow>
            handle_successful_reschedule env r dt =
              ([GetReferral r, RescheduleReferral r dt ''Rescheduled via automated call'',
                Print (LogRescheduleFailed r)], Inr ()))"
  using assms
  by (cases referral) (simp_all add: handle_successful_reschedule_def io_simps Let_def)

theorem reschedule_failure_aborts_witness:
  "get_referral env_store_refuses (PyStr ''ref-1'') = Inr (Some referral_row)
   \<and> get_referral env_store_raises (PyStr ''ref-1'') = Inr (Some referral_row)
   \<and> referral_row \<noteq> []
   \<and> reschedule_referral env_store_refuses (PyStr ''ref-1'') (Datetime 1769954400)
        ''Rescheduled via automated call'' = Inr None
   \<and> \<not> row_truthy None
   \<and> reschedule_referral env_store_raises (PyStr ''ref-1'') (Datetime 1769954400)
        ''Rescheduled via automated call'' = Inl (Error ''store unavailable'')
   \<and> handle_successful_reschedule env_store_refuses (PyStr ''ref-1'') (Datetime 1769954400)
       = ([GetReferral (PyStr ''ref-1''),
           RescheduleReferral (PyStr ''ref-1'') (Datetime 1769954400) ''Rescheduled via automated call'',
           Print (LogRescheduleFailed (PyStr ''ref-1''))],
          Inr ())
   \<and> handle_successful_reschedule env_store_raises (PyStr ''ref-1'') (Datetime 1769954400)
       = ([GetReferral (PyStr ''ref-1''),
           RescheduleReferral (PyStr ''ref-1'') (Datetime 1769954400) ''Rescheduled via automated call''],
          Inl (Error ''store unavailable''))"
proof -
  have h1: "get_referral env_store_refuses (PyStr ''ref-1'') = Inr (Some referral_row)"
    and h1': "get_referral env_store_raises (PyStr ''ref-1'') = Inr (Some referral_row)"
    by (simp_all add: env_store_refuses_def env_store_raises_def env_ok_fields)
  have h2: "referral_row \<noteq> []"
    by (simp add: referral_row_def)
  have h3: "reschedule_referral env_store_refuses (PyStr ''ref-1'') (Datetime 1769954400)
              ''Rescheduled via automated call'' = Inr None"
    by (simp add: env_store_refuses_def)
  have h3': "reschedule_referral env_store_raises (PyStr ''ref-1'') (Datetime 1769954400)
              ''Rescheduled via automated call'' = Inl (Error ''store unavailable'')"
    by (simp add: env_store_raises_def)
  show ?thesis
    using reschedule_failure_aborts [OF h1 h2, where dt = "Datetime 1769954400" and referral = None]
      reschedule_failure_aborts [OF h1' h2, where dt = "Datetime 1769954400"
        and e = "Error ''store unavailable''"]
      h1 h1' h2 h3 h3'
    by simp
qed

section \<open>The follow-up flag\<close>

text \<open>
  C8. The priority of a follow-up flag is the table of the spec, as a total function of the
  outcome string: \<open>declined\<close> high, \<open>no_answer\<close> medium, \<open>voicemail\<close> medium,
  \<open>callback_requested\<close> high, \<open>invalid_number\<close> urgent, \<open>failed\<close> high, anything else
  medium; the flagger hands exactly one flag to the store, and it carries that priority.
\<close>

theorem follow_up_priority_mapping:
  "filter is_flag_call (fst (create_follow_up_flag env r oc tr)) = [CreateFlag (make_flag_data env r oc tr)]
   \<and> fd_priority (make_flag_data env r oc tr) =
     (if oc = ''declined'' then FlagPriority.HIGH
      else if oc = ''no_answer'' then FlagPriority.MEDIUM
      else if oc = ''voicemail'' then FlagPriority.MEDIUM
      else if oc = ''callback_requested'' then FlagPriority.HIGH
      else if oc = ''invalid_number'' then FlagPriority.URGENT
      else if oc = ''failed'' then FlagPriority.HIGH
      else FlagPriority.MEDIUM)"
  by (simp add: flagger_one_flag make_flag_data_def priority_lookup)

theorem follow_up_priority_mapping_witness:
  "fd_priority (make_flag_data env_ok (PyStr ''ref-1'') ''declined'' None) = FlagPriority.HIGH
   \<and> fd_priority (make_flag_data env_ok (PyStr ''ref-1'') ''invalid_number'' None) = FlagPriority.URGENT
   \<and> fd_priority (make_flag_data env_ok (PyStr ''ref-1'') ''busy'' None) = FlagPriority.MEDIUM
   \<and> filter is_flag_call (fst (create_follow_up_flag env_ok (PyStr ''ref-1'') ''declined'' None))
       = [CreateFlag (make_flag_data env_ok (PyStr ''ref-1'') ''declined'' None)]"
  using follow_up_priority_mapping [of env_ok "PyStr ''ref-1''" "''declined''" None]
    follow_up_priority_mapping [of env_ok "PyStr ''ref-1''" "''invalid_number''" None]
    follow_up_priority_mapping [of env_ok "PyStr ''ref-1''" "''busy''" None]
  by simp

text \<open>
  C9. For an event with a transcript, the description of the flag is the outcome line, the
  follow-up line and, for a non-empty transcript, the first 500 characters of the transcript
  followed by an ellipsis; so the description is at most 608 characters longer than the
  outcome string, however long the transcript. The title is derived from the outcome string:
  it starts with \<open>Follow-up needed: \<close>, and it is the same whatever the referral and the
  transcript are; for an ASCII outcome string, what follows the prefix is as long as the
  outcome and is the outcome with its underscores as spaces, up to letter case.
\<close>

theorem flag_description_bounded:
  "filter is_flag_call (fst (create_follow_up_flag env r oc (Some t)))
     = [CreateFlag (make_flag_data env r oc (Some t))]
   \<and> fd_description (make_flag_data env r oc (Some t)) =
       ''Automated call outcome: '' @ oc @ [CHR 0x0A]
       @ ''Patient needs manual follow-up to reschedule missed referral.''
       @ (if t = [] then []
          else [CHR 0x0A, CHR 0x0A] @ ''Call transcript:'' @ [CHR 0x0A] @ take 500 t @ ''...'')
   \<and> length (take 500 t) \<le> 500
   \<and> length (fd_description (make_flag_data env r oc (Some t))) \<le> length oc + 608
   \<and> take 18 (fd_title (make_flag_data env r oc (Some t))) = ''Follow-up needed: ''
   \<and> fd_title (make_flag_data env r oc (Some t)) = fd_title (make_flag_data env r' oc tr')
   \<and> (list_all is_ascii oc \<longrightarrow>
        length (fd_title (make_flag_data env r oc (Some t))) = 18 + length oc
        \<and> str_lower_ascii (drop 18 (fd_title (make_flag_data env r oc (Some t))))
            = str_lower_ascii (str_replace (CHR ''_'') '' '' oc))"
proof -
  have descr: "fd_description (make_flag_data env r oc (Some t)) =
       ''Automated call outcome: '' @ oc @ [CHR 0x0A]
       @ ''Patient needs manual follow-up to reschedule missed referral.''
       @ (if t = [] then []
          else [CHR 0x0A, CHR 0x0A] @ ''Call transcript:'' @ [CHR 0x0A] @ take 500 t @ ''...'')"
    by (simp add: make_flag_data_def description_parts_def)
  have len: "length (fd_description (make_flag_data env r oc (Some t))) \<le> length oc + 608"
    by (simp add: make_flag_data_def description_parts_def)
  have pre: "take 18 (fd_title (make_flag_data env r oc (Some t))) = ''Follow-up needed: ''"
    by (simp add: make_flag_data_def)
  have same: "fd_title (make_flag_data env r oc (Some t)) = fd_title (make_flag_data env r' oc tr')"
    by (simp add: make_flag_data_def)
  have ascii: "length (fd_title (make_flag_data env r oc (Some t))) = 18 + length oc
        \<and> str_lower_ascii (drop 18 (fd_title (make_flag_data env r oc (Some t))))
            = str_lower_ascii (str_replace (CHR ''_'') '' '' oc)"
    if "list_all is_ascii oc"
    using that
    by (simp add: make_flag_data_def str_title_def ascii_underscores_replaced
          length_title_from length_underscores_replaced lower_title_from)
  show ?thesis
    using flagger_one_flag [of env r oc "Some t"] descr len pre same ascii by simp
qed

theorem flag_description_bounded_witness:
  "list_all is_ascii ''no_answer''
   \<and> fd_description (make_flag_data env_ok (PyStr ''ref-1'') ''no_answer'' (Some (replicate 501 (CHR ''a''))))
     = ''Automated call outcome: no_answer'' @ [CHR 0x0A]
       @ ''Patient needs manual follow-up to reschedule missed referral.''
       @ [CHR 0x0A, CHR 0x0A] @ ''Call transcript:'' @ [CHR 0x0A]
       @ replicate 500 (CHR ''a'') @ ''...''
   \<and> length (fd_title (make_flag_data env_ok (PyStr ''ref-1'') ''no_answer''
        (Some (replicate 501 (CHR ''a''))))) = 27
   \<and> fd_title (make_flag_data env_ok (PyStr ''ref-1'') ''no_answer'' (Some (replicate 501 (CHR ''a''))))
       = ''Follow-up needed: No Answer''"
proof -
  have a: "list_all is_ascii ''no_answer''"
    by code_simp
  have t: "fd_title (make_flag_data env_ok (PyStr ''ref-1'') ''no_answer''
             (Some (replicate 501 (CHR ''a'')))) = ''Follow-up needed: No Answer''"
    by (simp add: make_flag_data_def title_examples)
  note bounded = flag_description_bounded [of env_ok "PyStr ''ref-1''" "''no_answer''"
        "replicate 501 (CHR ''a'')" "PyStr ''ref-1''" None]
  have d: "fd_description (make_flag_data env_ok (PyStr ''ref-1'') ''no_answer''
             (Some (replicate 501 (CHR ''a''))))
     = ''Automated call outcome: no_answer'' @ [CHR 0x0A]
       @ ''Patient needs manual follow-up to reschedule missed referral.''
       @ [CHR 0x0A, CHR 0x0A] @ ''Call transcript:'' @ [CHR 0x0A]
       @ replicate 500 (CHR ''a'') @ ''...''"
    using bounded [THEN conjunct2, THEN conjunct1] by simp
  have l: "length (fd_title (make_flag_data env_ok (PyStr ''ref-1'') ''no_answer''
        (Some (replicate 501 (CHR ''a''))))) = 27"
    using bounded [THEN conjunct2, THEN conjunct2, THEN conjunct2, THEN conjunct2,
        THEN conjunct2, THEN conjunct2] a
    by simp
  show ?thesis
    using a d l t by blast
qed

text \<open>
  C10. An event whose outcome is \<open>rescheduled\<close> but which carries no new appointment time
  does not reschedule: once the call attempt is updated, the processing creates one
  follow-up flag, built from the outcome string \<open>rescheduled\<close> (it is in the title and in the
  description; a flag has no outcome field of its own), with the fallback priority medium,
  and it neither reads nor writes the referral.
\<close>

theorem rescheduled_without_time_is_flagged:
  assumes "pl_outcome p = Some ''rescheduled''" and "pl_new_appointment_time p = None"
    and "map_of cl ''id'' = Some i" and "map_of cl ''referral_id'' = Some r"
    and "update_call_log env i (make_call_update env p) = Inr ()"
  shows "filter is_flag_call (fst (process_call_outcome env cl p))
           = [CreateFlag (make_flag_data env r ''rescheduled'' (pl_transcript p))]
    \<and> fd_priority (make_flag_data env r ''rescheduled'' (pl_transcript p)) = FlagPriority.MEDIUM
    \<and> fd_title (make_flag_data env r ''rescheduled'' (pl_transcript p)) = ''Follow-up needed: Rescheduled''
    \<and> take 35 (fd_description (make_flag_data env r ''rescheduled'' (pl_transcript p)))
         = ''Automated call outcome: rescheduled''
    \<and> filter is_get_referral (fst (process_call_outcome env cl p)) = []
    \<and> filter is_referral_write (fst (process_call_outcome env cl p)) = []"
proof -
  have no: "\<not> (pl_outcome p = Some ''rescheduled'' \<and> pl_new_appointment_time p \<noteq> None)"
    using assms(2) by simp
  have oc: "outcome_or_status p = ''rescheduled''"
    using assms(1) by (simp add: outcome_or_status_def)
  have title: "str_title u (str_replace (CHR ''_'') '' '' ''rescheduled'') = ''Rescheduled''" for u
    by code_simp
  have run: "process_call_outcome env cl p =
     ([UpdateCallLog i (make_call_update env p), Print (LogCallOutcome ''rescheduled''),
       Print (LogRemainsMissed r)]
        @ fst (create_follow_up_flag env r ''rescheduled'' (pl_transcript p)),
      snd (create_follow_up_flag env r ''rescheduled'' (pl_transcript p)))"
    using process_flag_branch [OF assms(3) assms(4) assms(5) no] by (simp add: oc)
  have prio: "fd_priority (make_flag_data env r ''rescheduled'' (pl_transcript p)) = FlagPriority.MEDIUM"
    by (simp add: make_flag_data_def dict_get_default_def priority_map_def)
  have ttl: "fd_title (make_flag_data env r ''rescheduled'' (pl_transcript p)) = ''Follow-up needed: Rescheduled''"
    by (simp add: make_flag_data_def title)
  have descr: "take 35 (fd_description (make_flag_data env r ''rescheduled'' (pl_transcript p)))
         = ''Automated call outcome: rescheduled''"
    by (simp add: make_flag_data_def description_parts_def)
  show ?thesis
    by (simp add: run flagger_one_flag flagger_no_referral flagger_no_referral_write prio ttl descr)
qed

theorem rescheduled_without_time_is_flagged_witness:
  "pl_outcome (payload_rescheduled\<lparr>pl_new_appointment_time := None\<rparr>) = Some ''rescheduled''
   \<and> pl_new_appointment_time (payload_rescheduled\<lparr>pl_new_appointment_time := None\<rparr>) = None
   \<and> map_of call_log_terminal ''id'' = Some (PyStr ''log-1'')
   \<and> map_of call_log_terminal ''referral_id'' = Some (PyStr ''ref-1'')
   \<and> update_call_log env_ok (PyStr ''log-1'')
        (make_call_update env_ok (payload_rescheduled\<lparr>pl_new_appointment_time := None\<rparr>)) = Inr ()
   \<and> filter is_flag_call
        (fst (process_call_outcome env_ok call_log_terminal
                (payload_rescheduled\<lparr>pl_new_appointment_time := None\<rparr>)))
       = [CreateFlag (make_flag_data env_ok (PyStr ''ref-1'') ''rescheduled'' (Some ''No thanks.''))]
   \<and> fd_priority (make_flag_data env_ok (PyStr ''ref-1'') ''rescheduled'' (Some ''No thanks.''))
       = FlagPriority.MEDIUM"
proof -
  let ?p = "payload_rescheduled\<lparr>pl_new_appointment_time := None\<rparr>"
  have h1: "pl_outcome ?p = Some ''rescheduled''"
    by (simp add: payload_rescheduled_def)
  have h2: "pl_new_appointment_time ?p = None"
    by simp
  have h3: "map_of call_log_terminal ''id'' = Some (PyStr ''log-1'')"
    and h4: "map_of call_log_terminal ''referral_id'' = Some (PyStr ''ref-1'')"
    by (simp_all add: call_log_terminal_items)
  have h5: "update_call_log env_ok (PyStr ''log-1'') (make_call_update env_ok ?p) = Inr ()"
    by (simp add: env_ok_fields)
  have tr: "pl_transcript ?p = Some ''No thanks.''"
    by (simp add: payload_rescheduled_def payload_declined_def)
  show ?thesis
    using rescheduled_without_time_is_flagged [OF h1 h2 h3 h4 h5] h1 h3 h4 h5
    by (simp add: tr)
qed

end
